theory Spec2Isabelle
  imports
    Main
    "HOL-Library.Sublist"
    "HOL-Library.Char_ord"
    "HOL-Library.List_Lexorder"
begin

section \<open>Test fixtures of the java package (java/testing.go)\<close>

subsection \<open>Go values shared by the models\<close>

text \<open>
  A Go panic is a value of the model. \<open>IndexOutOfRange i n\<close> is the runtime error of
  reading index \<open>i\<close> of a slice of length \<open>n\<close>; \<open>TypeAssertionPanic\<close> is a failed
  \<open>x.(T)\<close>.
\<close>

datatype panic = IndexOutOfRange nat nat | TypeAssertionPanic

text \<open>
  The module kinds that the type switch of \<open>fakeApexMutator\<close> tells apart: \<open>*Library\<close>,
  \<open>*SdkLibrary\<close> and every other module type.
\<close>

datatype ModuleKind = Library | SdkLibrary | OtherModule

record Module =
  Name :: string
  Kind :: ModuleKind
  ApexAvailable :: "string list"

text \<open>The two fields of \<open>android.ApexInfo\<close> that testing.go reads or writes.\<close>

record ApexInfo =
  ApexVariationName :: string
  InApexVariants :: "string list"

subsection \<open>apexNamePairFromModule\<close>

text \<open>
  \<open>ctx.ModuleProvider(module, android.ApexInfoProvider)\<close> and \<open>apexInfo.IsForPlatform()\<close>
  belong to the android package and are parameters here. \<open>ModuleProvider\<close> yields \<open>None\<close>
  when the stored value is not an \<open>ApexInfo\<close>, where the type assertion panics.
  \<open>fmt.Sprintf("%s:%s", apex, name)\<close> is concatenation around a colon.
\<close>

definition apexNamePairFromModule ::
  "(Module \<Rightarrow> ApexInfo option) \<Rightarrow> (ApexInfo \<Rightarrow> bool) \<Rightarrow> Module \<Rightarrow> panic + string" where
  "apexNamePairFromModule ModuleProvider IsForPlatform m =
     (let name = Name m in
      case ModuleProvider m of
        None \<Rightarrow> Inl TypeAssertionPanic
      | Some apexInfo \<Rightarrow>
          if IsForPlatform apexInfo then Inr (''platform'' @ '':'' @ name)
          else (case InApexVariants apexInfo of
                  [] \<Rightarrow> Inl (IndexOutOfRange 0 0)
                | apex # _ \<Rightarrow> Inr (apex @ '':'' @ name)))"

fun ApexNamePairsFromModules ::
  "(Module \<Rightarrow> ApexInfo option) \<Rightarrow> (ApexInfo \<Rightarrow> bool) \<Rightarrow> Module list \<Rightarrow> string list
     \<Rightarrow> panic + string list" where
  "ApexNamePairsFromModules mp ifp [] pairs = Inr pairs"
| "ApexNamePairsFromModules mp ifp (m # modules) pairs =
     (case apexNamePairFromModule mp ifp m of
        Inl e \<Rightarrow> Inl e
      | Inr p \<Rightarrow> ApexNamePairsFromModules mp ifp modules (pairs @ [p]))"

subsection \<open>Fixture preparers\<close>

text \<open>
  A mock file system maps a path to the bytes of the file; every file that testing.go
  creates has the contents \<open>nil\<close>, written \<open>[]\<close>. \<open>Merge\<close> is \<open>++\<close>.
\<close>

type_synonym MockFS = "string \<rightharpoonup> string"

text \<open>
  The preparers that testing.go builds, as the calls into the android and dexpreopt
  packages that make them. \<open>FixtureModifyProductVariables_BootJars js\<close> is the preparer
  whose callback sets \<open>variables.BootJars = android.CreateTestConfiguredJarList(js)\<close>.
\<close>

datatype FixturePreparer =
    FixtureAddTextFile string string
  | FixtureMergeMockFs MockFS
  | FixtureModifyProductVariables_BootJars "string list"
  | FixtureSetBootJars "string list"
  | FixtureSetArtBootJars "string list"
  | PrepareForTestWithFakeDex2oatd
  | GroupFixturePreparers "FixturePreparer list"

subsection \<open>FixtureConfigureBootJars\<close>

text \<open>
  The inner loop over \<open>artApexNames\<close> (a variable of the package that is declared in
  another file, a parameter here): it sets \<open>artApex\<close> and breaks at the first name that,
  followed by a colon, is a prefix of the jar. \<open>strings.HasPrefix(j, p)\<close> is \<open>prefix p j\<close>.
\<close>

fun artApex :: "string list \<Rightarrow> string \<Rightarrow> bool" where
  "artApex [] j = False"
| "artApex (artApexName # rest) j =
     (if prefix (artApexName @ '':'') j then True else artApex rest j)"

text \<open>The outer loop, with \<open>artBootJars\<close> as the accumulator it appends to.\<close>

fun artBootJarsLoop :: "string list \<Rightarrow> string list \<Rightarrow> string list \<Rightarrow> string list" where
  "artBootJarsLoop artApexNames [] artBootJars = artBootJars"
| "artBootJarsLoop artApexNames (j # bootJars) artBootJars =
     artBootJarsLoop artApexNames bootJars
       (if artApex artApexNames j then artBootJars @ [j] else artBootJars)"

definition FixtureConfigureBootJars :: "string list \<Rightarrow> string list \<Rightarrow> FixturePreparer" where
  "FixtureConfigureBootJars artApexNames bootJars =
     (let artBootJars = artBootJarsLoop artApexNames bootJars [] in
      GroupFixturePreparers
        [FixtureModifyProductVariables_BootJars bootJars,
         FixtureSetBootJars bootJars,
         FixtureSetArtBootJars artBootJars,
         PrepareForTestWithFakeDex2oatd])"

subsection \<open>FixtureWithPrebuiltApis and its callers\<close>

datatype SdkKind = SdkPublic | SdkSystem | SdkModule | SdkSystemServer | SdkTest

text \<open>
  Two functions of other files are parameters of the model: \<open>kindString\<close> is the name
  that \<open>%s\<close> prints for an \<open>android.SdkKind\<close>, and \<open>systemModuleKind k level\<close> stands for
  \<open>systemModuleKind(k, android.ApiLevelForTest(level))\<close>.
\<close>

definition libFiles :: "string \<Rightarrow> string \<Rightarrow> string \<Rightarrow> MockFS \<Rightarrow> MockFS" where
  "libFiles level kind lib fs =
     (let fs1 = fs(''prebuilts/sdk/'' @ level @ ''/'' @ kind @ ''/'' @ lib @ ''.jar'' \<mapsto> []) in
      if level \<noteq> ''current''
      then fs1(''prebuilts/sdk/'' @ level @ ''/'' @ kind @ ''/api/'' @ lib @ ''.txt'' \<mapsto> [],
               ''prebuilts/sdk/'' @ level @ ''/'' @ kind @ ''/api/'' @ lib @ ''-removed.txt'' \<mapsto> [])
      else fs1)"

definition kindFiles ::
  "(SdkKind \<Rightarrow> string) \<Rightarrow> (SdkKind \<Rightarrow> string \<Rightarrow> SdkKind) \<Rightarrow> string \<Rightarrow> string list
     \<Rightarrow> SdkKind \<Rightarrow> MockFS \<Rightarrow> MockFS" where
  "kindFiles kindString systemModuleKind level libs sdkKind fs =
     (let fs1 = (if sdkKind = systemModuleKind sdkKind level
                 then fs(''prebuilts/sdk/'' @ level @ ''/'' @ kindString sdkKind
                           @ ''/core-for-system-modules.jar'' \<mapsto> [])
                 else fs)
      in foldl (\<lambda>acc lib. libFiles level (kindString sdkKind) lib acc) fs1 libs)"

definition levelFiles ::
  "(SdkKind \<Rightarrow> string) \<Rightarrow> (SdkKind \<Rightarrow> string \<Rightarrow> SdkKind) \<Rightarrow> string list \<Rightarrow> string
     \<Rightarrow> MockFS \<Rightarrow> MockFS" where
  "levelFiles kindString systemModuleKind libs level fs =
     (let fs1 = foldl (\<lambda>acc sdkKind. kindFiles kindString systemModuleKind level libs sdkKind acc)
                  fs [SdkPublic, SdkSystem, SdkModule, SdkSystemServer, SdkTest];
          fs2 = (if level = ''current''
                 then fs1(''prebuilts/sdk/current/core/android.jar'' \<mapsto> [])
                 else fs1)
      in fs2(''prebuilts/sdk/'' @ level @ ''/public/framework.aidl'' \<mapsto> []))"

definition prebuiltApisFilesForModules ::
  "(SdkKind \<Rightarrow> string) \<Rightarrow> (SdkKind \<Rightarrow> string \<Rightarrow> SdkKind) \<Rightarrow> string list \<Rightarrow> string list
     \<Rightarrow> MockFS" where
  "prebuiltApisFilesForModules kindString systemModuleKind apiLevels modules =
     (let libs = [''android''] @ modules in
      foldl (\<lambda>fs level. levelFiles kindString systemModuleKind libs level fs)
        Map.empty apiLevels)"

definition extensionLibFiles :: "string \<Rightarrow> string \<Rightarrow> string \<Rightarrow> MockFS \<Rightarrow> MockFS" where
  "extensionLibFiles level kind lib fs =
     fs(''prebuilts/sdk/extensions/'' @ level @ ''/'' @ kind @ ''/api/'' @ lib @ ''.txt'' \<mapsto> [],
        ''prebuilts/sdk/extensions/'' @ level @ ''/'' @ kind @ ''/api/'' @ lib @ ''-removed.txt'' \<mapsto> [])"

definition prebuiltExtensionApiFiles ::
  "(SdkKind \<Rightarrow> string) \<Rightarrow> string list \<Rightarrow> string list \<Rightarrow> MockFS" where
  "prebuiltExtensionApiFiles kindString extensionLevels modules =
     foldl (\<lambda>fs level.
         foldl (\<lambda>fs1 sdkKind.
             foldl (\<lambda>fs2 lib. extensionLibFiles level (kindString sdkKind) lib fs2) fs1 modules)
           fs [SdkPublic, SdkSystem, SdkModule, SdkSystemServer])
       Map.empty extensionLevels"

text \<open>\<open>strings.Join\<close>.\<close>

fun Join :: "string list \<Rightarrow> string \<Rightarrow> string" where
  "Join [] sep = []"
| "Join [x] sep = x"
| "Join (x # y # ys) sep = x @ sep @ Join (y # ys) sep"

text \<open>
  A Go \<open>map[string][]string\<close> is an association list with distinct keys; the order of
  its entries is the order in which \<open>range\<close> happens to yield them.
  \<open>android.SortedStringKeys\<close> sorts the keys bytewise.
\<close>

definition SortedStringKeys :: "(string \<times> string list) list \<Rightarrow> string list" where
  "SortedStringKeys m = sort (map fst m)"

definition tabs :: "nat \<Rightarrow> string" where
  "tabs n = replicate n (CHR 0x09)"

definition newline :: string where
  "newline = [CHR 0x0A]"

definition prebuiltApisBp :: "string \<Rightarrow> string" where
  "prebuiltApisBp dirs =
     newline @ tabs 3 @ ''prebuilt_apis {'' @
     newline @ tabs 4 @ ''name: '' @ [CHR 0x22] @ ''sdk'' @ [CHR 0x22] @ '','' @
     newline @ tabs 4 @ ''api_dirs: ['' @ [CHR 0x22] @ dirs @ [CHR 0x22] @ ''],'' @
     newline @ tabs 4 @ ''extensions_dir: '' @ [CHR 0x22] @ ''extensions'' @ [CHR 0x22] @ '','' @
     newline @ tabs 4 @ ''imports_sdk_version: '' @ [CHR 0x22] @ ''none'' @ [CHR 0x22] @ '','' @
     newline @ tabs 4 @ ''imports_compile_dex: true,'' @
     newline @ tabs 3 @ ''}'' @
     newline @ tabs 2"

definition FixtureWithPrebuiltApisAndExtensions ::
  "(SdkKind \<Rightarrow> string) \<Rightarrow> (SdkKind \<Rightarrow> string \<Rightarrow> SdkKind) \<Rightarrow> (string \<times> string list) list
     \<Rightarrow> (string \<times> string list) list option \<Rightarrow> FixturePreparer" where
  "FixtureWithPrebuiltApisAndExtensions kindString systemModuleKind apiLevel2Modules
       extensionLevel2Modules =
     (let path = ''prebuilts/sdk/Android.bp'';
          bp = prebuiltApisBp
                 (Join (SortedStringKeys apiLevel2Modules) ([CHR 0x22] @ '', '' @ [CHR 0x22]));
          mockFS1 = foldl (\<lambda>mockFS (release, modules).
                        mockFS ++ prebuiltApisFilesForModules kindString systemModuleKind
                                    [release] modules)
                      Map.empty apiLevel2Modules;
          mockFS2 = (case extensionLevel2Modules of
                       None \<Rightarrow> mockFS1
                     | Some ext \<Rightarrow>
                         foldl (\<lambda>mockFS (release, modules).
                             mockFS ++ prebuiltExtensionApiFiles kindString [release] modules)
                           mockFS1 ext)
      in GroupFixturePreparers [FixtureAddTextFile path bp, FixtureMergeMockFs mockFS2])"

definition FixtureWithPrebuiltApis ::
  "(SdkKind \<Rightarrow> string) \<Rightarrow> (SdkKind \<Rightarrow> string \<Rightarrow> SdkKind) \<Rightarrow> (string \<times> string list) list
     \<Rightarrow> FixturePreparer" where
  "FixtureWithPrebuiltApis kindString systemModuleKind release2Modules =
     FixtureWithPrebuiltApisAndExtensions kindString systemModuleKind release2Modules None"

definition FixtureWithLastReleaseApis ::
  "(SdkKind \<Rightarrow> string) \<Rightarrow> (SdkKind \<Rightarrow> string \<Rightarrow> SdkKind) \<Rightarrow> string list \<Rightarrow> FixturePreparer" where
  "FixtureWithLastReleaseApis kindString systemModuleKind moduleNames =
     FixtureWithPrebuiltApis kindString systemModuleKind [(''30'', moduleNames)]"

subsection \<open>FixtureUseLegacyCorePlatformApi\<close>






section \<open>The module graph engine\<close>

text \<open>
  The graph, the variation engine, the provider store and the mutator pipeline belong
  to packages that testing.go calls (android, blueprint). Their definitions below follow
  the specification of the engine; \<open>fakeApexMutator\<close> and \<open>CheckModuleDependencies\<close> are
  the functions of testing.go on top of them.
\<close>

text \<open>The two provider ids that testing.go names.\<close>

datatype ProviderId = ApexInfoProvider | ClasspathFragmentProtoContentInfoProvider

text \<open>
  Modelled from the spec: the errors of the engine. \<open>UnresolvedReferenceError\<close> carries
  the offending name and the candidates, \<open>CycleError\<close> the names of the members of the
  cycle, \<open>ProviderAlreadySetError\<close> the module-variant and the provider id. Two more
  values are failures of the model's own: \<open>InvalidHandle\<close> is a handle outside the arena,
  which no operation returns, and \<open>GoPanic\<close> is a panic inside a mutator function.
\<close>

datatype error =
    UnresolvedReferenceError string "nat list"
  | CycleError "string list"
  | ProviderAlreadySetError nat ProviderId
  | VariationError
  | DanglingEdgeError
  | InvalidHandle nat
  | GoPanic panic

text \<open>
  Modelled from the spec: the arena of module-variant records. A handle is an index into
  \<open>g_nodes\<close>. A variant carries its copy of the module's state, the (axis, value) pairs
  that identify it, whether it has been split, and its provider slots. An edge is
  (from, to, tag); \<open>g_edges\<close> is in insertion order.
\<close>

record 'v ModuleVariant =
  mv_module :: Module
  mv_variations :: "(string \<times> string) list"
  mv_split :: bool
  mv_providers :: "ProviderId \<rightharpoonup> 'v"

record 'v Graph =
  g_nodes :: "'v ModuleVariant list"
  g_edges :: "(nat \<times> nat \<times> string) list"

definition emptyGraph :: "'v Graph" where
  "emptyGraph = \<lparr>g_nodes = [], g_edges = []\<rparr>"

definition moduleAt :: "'v Graph \<Rightarrow> nat \<Rightarrow> 'v ModuleVariant option" where
  "moduleAt g h = (if h < length (g_nodes g) then Some (g_nodes g ! h) else None)"

definition handleNames :: "'v Graph \<Rightarrow> nat list \<Rightarrow> string list" where
  "handleNames g hs =
     concat (map (\<lambda>h. case moduleAt g h of None \<Rightarrow> [] | Some n \<Rightarrow> [Name (mv_module n)]) hs)"

subsection \<open>Dependency graph\<close>

text \<open>Modelled from the spec: \<open>AddModule\<close> creates a node and returns its handle.\<close>

definition AddModule :: "'v Graph \<Rightarrow> Module \<Rightarrow> 'v Graph \<times> nat" where
  "AddModule g m =
     (g\<lparr>g_nodes := g_nodes g @
          [\<lparr>mv_module = m, mv_variations = [], mv_split = False, mv_providers = Map.empty\<rparr>]\<rparr>,
      length (g_nodes g))"

text \<open>
  Modelled from the spec: \<open>AddDependency\<close> resolves the name among the variants that are
  still resolvable (a split node is not) and fails unless exactly one matches; the edge
  is added after the existing ones.
\<close>

definition candidates :: "'v Graph \<Rightarrow> string \<Rightarrow> nat list" where
  "candidates g toName =
     filter (\<lambda>h. Name (mv_module (g_nodes g ! h)) = toName \<and> \<not> mv_split (g_nodes g ! h))
       [0..<length (g_nodes g)]"

definition AddDependency :: "'v Graph \<Rightarrow> nat \<Rightarrow> string \<Rightarrow> string \<Rightarrow> error + 'v Graph" where
  "AddDependency g src toName tag =
     (if \<not> src < length (g_nodes g) then Inl (InvalidHandle src)
      else case candidates g toName of
             [h] \<Rightarrow> Inr (g\<lparr>g_edges := g_edges g @ [(src, h, tag)]\<rparr>)
           | cs \<Rightarrow> Inl (UnresolvedReferenceError toName cs))"

text \<open>
  Modelled from the spec: \<open>VisitDirectDeps\<close> calls the function on the targets of the
  module's edges, in the order of the edge list; the function's state is threaded
  through the calls. \<open>AllModules\<close> is in creation order.
\<close>

definition directDeps :: "'v Graph \<Rightarrow> nat \<Rightarrow> nat list" where
  "directDeps g m = map (\<lambda>e. fst (snd e)) (filter (\<lambda>e. fst e = m) (g_edges g))"

definition VisitDirectDeps :: "'v Graph \<Rightarrow> nat \<Rightarrow> (nat \<Rightarrow> 's \<Rightarrow> 's) \<Rightarrow> 's \<Rightarrow> 's" where
  "VisitDirectDeps g m fn s = foldl (\<lambda>acc h. fn h acc) s (directDeps g m)"

definition AllModules :: "'v Graph \<Rightarrow> nat list" where
  "AllModules g = [0..<length (g_nodes g)]"

text \<open>
  \<open>CheckModuleDependencies\<close> of testing.go: it collects the names of the direct
  dependencies, sorts them and compares them with the expected list. The module is the
  handle that \<open>ctx.ModuleForTests(name, variant).Module()\<close> found; the result is \<open>True\<close>
  when \<open>t.Errorf\<close> is not called. A dependency outside the arena has no module and
  contributes no name. The expected slice is taken to be non-nil, as \<open>deps\<close> is.
\<close>

definition CheckModuleDependencies :: "'v Graph \<Rightarrow> nat \<Rightarrow> string list \<Rightarrow> bool" where
  "CheckModuleDependencies ctx m expected =
     (let deps = VisitDirectDeps ctx m (\<lambda>d deps. deps @ handleNames ctx [d]) [];
          actual = sort deps
      in expected = actual)"

subsection \<open>Variation engine\<close>

text \<open>
  Modelled from the spec: \<open>CreateVariations\<close> fails with no values, on a node that has
  been split already, and on a handle outside the arena. Otherwise it marks the node as split
  and appends one new variant per value, in the order of the values, each with a copy of
  the module's state and with empty provider slots; inbound edges are left as they are.
\<close>

definition CreateVariations ::
  "'v Graph \<Rightarrow> nat \<Rightarrow> string \<Rightarrow> string list \<Rightarrow> error + ('v Graph \<times> nat list)" where
  "CreateVariations g m axis vals =
     (case moduleAt g m of
        None \<Rightarrow> Inl (InvalidHandle m)
      | Some node \<Rightarrow>
          if vals = [] \<or> mv_split node then Inl VariationError
          else
            let n = length (g_nodes g);
                new = map (\<lambda>v. \<lparr>mv_module = mv_module node,
                                mv_variations = mv_variations node @ [(axis, v)],
                                mv_split = False,
                                mv_providers = Map.empty\<rparr>) vals
            in Inr (g\<lparr>g_nodes := (g_nodes g)[m := node\<lparr>mv_split := True\<rparr>] @ new\<rparr>,
                    [n..<n + length vals]))"

subsection \<open>Provider store\<close>

text \<open>
  Modelled from the spec: \<open>SetProvider\<close> fails when the slot of the key is set already;
  \<open>GetProvider\<close> is \<open>None\<close> for a slot that is not set.
\<close>

definition SetProvider :: "'v Graph \<Rightarrow> nat \<Rightarrow> ProviderId \<Rightarrow> 'v \<Rightarrow> error + 'v Graph" where
  "SetProvider g h p x =
     (case moduleAt g h of
        None \<Rightarrow> Inl (InvalidHandle h)
      | Some node \<Rightarrow>
          (case mv_providers node p of
             Some _ \<Rightarrow> Inl (ProviderAlreadySetError h p)
           | None \<Rightarrow>
               Inr (g\<lparr>g_nodes := (g_nodes g)
                      [h := node\<lparr>mv_providers := (mv_providers node)(p \<mapsto> x)\<rparr>]\<rparr>)))"

definition GetProvider :: "'v Graph \<Rightarrow> nat \<Rightarrow> ProviderId \<Rightarrow> 'v option" where
  "GetProvider g h p =
     (case moduleAt g h of None \<Rightarrow> None | Some node \<Rightarrow> mv_providers node p)"

subsection \<open>Mutator context and the fake APEX mutator\<close>

text \<open>
  Modelled from the spec: the context that a pass hands to the mutator function: the
  graph, the handle of the module being visited, and the name of the mutator, which is
  the axis of the variations it creates. \<open>mctx.Module()\<close> is the module's state at the
  handle, \<open>mctx.CreateVariations\<close> is \<open>CreateVariations\<close> on the visited module along that
  axis, and \<open>mctx.SetVariationProvider\<close> is \<open>SetProvider\<close>, both on the context's graph.
\<close>

record 'v MutatorContext =
  mc_graph :: "'v Graph"
  mc_module :: nat
  mc_mutator :: string

definition mctxModule :: "'v MutatorContext \<Rightarrow> Module option" where
  "mctxModule mctx = map_option mv_module (moduleAt (mc_graph mctx) (mc_module mctx))"

definition mctxCreateVariations ::
  "'v MutatorContext \<Rightarrow> string list \<Rightarrow> error + ('v MutatorContext \<times> nat list)" where
  "mctxCreateVariations mctx vals =
     (case CreateVariations (mc_graph mctx) (mc_module mctx) (mc_mutator mctx) vals of
        Inl e \<Rightarrow> Inl e
      | Inr (g, modules) \<Rightarrow> Inr (mctx\<lparr>mc_graph := g\<rparr>, modules))"

definition mctxSetVariationProvider ::
  "'v MutatorContext \<Rightarrow> nat \<Rightarrow> ProviderId \<Rightarrow> 'v \<Rightarrow> error + 'v MutatorContext" where
  "mctxSetVariationProvider mctx h p x =
     (case SetProvider (mc_graph mctx) h p x of
        Inl e \<Rightarrow> Inl e
      | Inr g \<Rightarrow> Inr (mctx\<lparr>mc_graph := g\<rparr>))"

text \<open>
  \<open>fakeApexMutator\<close> of testing.go. The fields of \<open>ApexInfo\<close> that the literal does not
  name have their zero value. \<open>modules[1]\<close> panics on a slice shorter than two. A context
  whose module handle is outside the arena, which no pass builds, has no module.
\<close>

definition fakeApexMutator :: "ApexInfo MutatorContext \<Rightarrow> error + ApexInfo MutatorContext" where
  "fakeApexMutator mctx =
     (case mctxModule mctx of
        None \<Rightarrow> Inl (InvalidHandle (mc_module mctx))
      | Some module \<Rightarrow>
          (case Kind module of
             OtherModule \<Rightarrow> Inr mctx
           | _ \<Rightarrow>
               if length (ApexAvailable module) > 0 then
                 (case mctxCreateVariations mctx ['''', ''apex1000''] of
                    Inl e \<Rightarrow> Inl e
                  | Inr (mctx1, modules) \<Rightarrow>
                      let apexInfo = \<lparr>ApexVariationName = ''apex1000'', InApexVariants = []\<rparr> in
                      if 1 < length modules
                      then mctxSetVariationProvider mctx1 (modules ! 1) ApexInfoProvider apexInfo
                      else Inl (GoPanic (IndexOutOfRange 1 (length modules))))
               else Inr mctx))"

subsection \<open>Mutator pipeline\<close>

datatype Direction = BottomUp | TopDown

type_synonym 'v Mutator =
  "string \<times> Direction \<times> ('v MutatorContext \<Rightarrow> error + 'v MutatorContext)"

text \<open>Modelled from the spec: \<open>RegisterMutator\<close> appends; passes run in this order.\<close>

definition RegisterMutator ::
  "'v Mutator list \<Rightarrow> string \<Rightarrow> Direction \<Rightarrow> ('v MutatorContext \<Rightarrow> error + 'v MutatorContext)
     \<Rightarrow> 'v Mutator list" where
  "RegisterMutator ms name dir fn = ms @ [(name, dir, fn)]"

text \<open>
  \<open>registerFakeApexMutator\<close> of testing.go registers the fake APEX mutator as the
  bottom-up mutator \<open>apex\<close>.
\<close>

definition registerFakeApexMutator :: "ApexInfo Mutator list \<Rightarrow> ApexInfo Mutator list" where
  "registerFakeApexMutator ctx = RegisterMutator ctx ''apex'' BottomUp fakeApexMutator"

text \<open>
  Modelled from the spec: the topological order of the current graph. A node is ready
  when each of its dependencies in the arena has been placed; the first ready node, in
  creation order, is placed next. When nodes remain and none is ready there is a cycle:
  following, from the first stuck node, the first stuck dependency of each node leads
  back to a node already on the path, and the path from there on is the cycle whose
  members' names are reported.
\<close>

definition ready :: "'v Graph \<Rightarrow> nat list \<Rightarrow> nat \<Rightarrow> bool" where
  "ready g placed h =
     list_all (\<lambda>d. d \<in> set placed \<or> \<not> d < length (g_nodes g)) (directDeps g h)"

fun cycleWalk :: "nat \<Rightarrow> 'v Graph \<Rightarrow> nat list \<Rightarrow> nat list \<Rightarrow> nat \<Rightarrow> nat list" where
  "cycleWalk 0 g stuck path h = path"
| "cycleWalk (Suc k) g stuck path h =
     (if h \<in> set path then dropWhile (\<lambda>x. x \<noteq> h) path
      else case find (\<lambda>d. d \<in> set stuck) (directDeps g h) of
             None \<Rightarrow> path @ [h]
           | Some d \<Rightarrow> cycleWalk k g stuck (path @ [h]) d)"

definition cycleMembers :: "'v Graph \<Rightarrow> nat list \<Rightarrow> nat list" where
  "cycleMembers g stuck =
     (case stuck of [] \<Rightarrow> [] | h # _ \<Rightarrow> cycleWalk (Suc (length stuck)) g stuck [] h)"

fun topoOrder :: "nat \<Rightarrow> 'v Graph \<Rightarrow> nat list \<Rightarrow> nat list \<Rightarrow> error + nat list" where
  "topoOrder 0 g pending placed =
     (if pending = [] then Inr placed
      else Inl (CycleError (handleNames g (cycleMembers g pending))))"
| "topoOrder (Suc k) g pending placed =
     (case find (ready g placed) pending of
        None \<Rightarrow>
          if pending = [] then Inr placed
          else Inl (CycleError (handleNames g (cycleMembers g pending)))
      | Some h \<Rightarrow> topoOrder k g (remove1 h pending) (placed @ [h]))"

definition passOrder :: "Direction \<Rightarrow> 'v Graph \<Rightarrow> error + nat list" where
  "passOrder dir g =
     (case topoOrder (length (g_nodes g)) g (AllModules g) [] of
        Inl e \<Rightarrow> Inl e
      | Inr order \<Rightarrow> Inr (case dir of BottomUp \<Rightarrow> order | TopDown \<Rightarrow> rev order))"

text \<open>
  Modelled from the spec: one pass over a worklist. The head of the pending queue is
  visited; the variants that the mutator function created during the visit are the
  handles the arena has gained, and they are appended to the pending queue. The first
  error aborts the pass. A mutator function may create variants for ever, so the loop
  has fuel, one unit per iteration, and \<open>None\<close> is the pass that has not ended.
\<close>

fun runPass ::
  "nat \<Rightarrow> string \<Rightarrow> ('v MutatorContext \<Rightarrow> error + 'v MutatorContext) \<Rightarrow> 'v Graph \<Rightarrow> nat list
     \<Rightarrow> nat list \<Rightarrow> (error + ('v Graph \<times> nat list)) option" where
  "runPass 0 name fn g pending visited = None"
| "runPass (Suc k) name fn g [] visited = Some (Inr (g, visited))"
| "runPass (Suc k) name fn g (h # pending) visited =
     (case fn \<lparr>mc_graph = g, mc_module = h, mc_mutator = name\<rparr> of
        Inl e \<Rightarrow> Some (Inl e)
      | Inr mctx \<Rightarrow>
          let g1 = mc_graph mctx;
              created = [length (g_nodes g)..<length (g_nodes g1)]
          in runPass k name fn g1 (pending @ created) (visited @ [h]))"

definition runMutatorPass ::
  "nat \<Rightarrow> 'v Mutator \<Rightarrow> 'v Graph \<Rightarrow> (error + ('v Graph \<times> nat list)) option" where
  "runMutatorPass fuel m g =
     (case m of (name, dir, fn) \<Rightarrow>
        (case passOrder dir g of
           Inl e \<Rightarrow> Some (Inl e)
         | Inr order \<Rightarrow> runPass fuel name fn g order []))"

definition danglingEdges :: "'v Graph \<Rightarrow> (nat \<times> nat \<times> string) list" where
  "danglingEdges g =
     filter (\<lambda>e. \<not> fst e < length (g_nodes g) \<or> \<not> fst (snd e) < length (g_nodes g)) (g_edges g)"

text \<open>
  Modelled from the spec: \<open>RunAll\<close> runs the passes in registration order, checks for
  dangling edges after each pass and stops at the first error.
\<close>

fun RunAll :: "nat \<Rightarrow> 'v Mutator list \<Rightarrow> 'v Graph \<Rightarrow> (error + 'v Graph) option" where
  "RunAll fuel [] g = Some (Inr g)"
| "RunAll fuel (m # ms) g =
     (case runMutatorPass fuel m g of
        None \<Rightarrow> None
      | Some (Inl e) \<Rightarrow> Some (Inl e)
      | Some (Inr (g1, visited)) \<Rightarrow>
          if danglingEdges g1 \<noteq> [] then Some (Inl DanglingEdgeError) else RunAll fuel ms g1)"

text \<open>
  Modelled from the spec: the module definition input is, per module, its declared
  attributes and its list of (dependency name, tag) pairs. The graph is built by adding
  every module, in order, and then every declared dependency, in order.
\<close>

type_synonym ModuleDefinition = "Module \<times> (string \<times> string) list"

fun addModules :: "'v Graph \<Rightarrow> ModuleDefinition list \<Rightarrow> 'v Graph" where
  "addModules g [] = g"
| "addModules g (d # ds) = addModules (fst (AddModule g (fst d))) ds"

fun addDependencies :: "'v Graph \<Rightarrow> nat \<Rightarrow> (string \<times> string) list \<Rightarrow> error + 'v Graph" where
  "addDependencies g h [] = Inr g"
| "addDependencies g h ((toName, tag) # deps) =
     (case AddDependency g h toName tag of
        Inl e \<Rightarrow> Inl e
      | Inr g1 \<Rightarrow> addDependencies g1 h deps)"

fun addAllDependencies :: "'v Graph \<Rightarrow> nat \<Rightarrow> ModuleDefinition list \<Rightarrow> error + 'v Graph" where
  "addAllDependencies g h [] = Inr g"
| "addAllDependencies g h (d # ds) =
     (case addDependencies g h (snd d) of
        Inl e \<Rightarrow> Inl e
      | Inr g1 \<Rightarrow> addAllDependencies g1 (Suc h) ds)"

definition BuildGraph :: "ModuleDefinition list \<Rightarrow> error + 'v Graph" where
  "BuildGraph defs = addAllDependencies (addModules emptyGraph defs) 0 defs"

definition RunPipeline ::
  "nat \<Rightarrow> 'v Mutator list \<Rightarrow> ModuleDefinition list \<Rightarrow> (error + 'v Graph) option" where
  "RunPipeline fuel ms defs =
     (case BuildGraph defs of
        Inl e \<Rightarrow> Some (Inl e)
      | Inr g \<Rightarrow> RunAll fuel ms g)"

section \<open>Source providers of a rust module (rust/builder_test.go)\<close>

text \<open>
  The test \<open>TestSourceProviderCollision\<close> declares a \<open>rust_binary\<close> whose \<open>srcs\<close> name
  two \<open>rust_bindgen\<close> modules with the same stem and expects the error of the message.
  The builder that reports it is in a file of the rust package other than the test.
\<close>

record RustBindgen =
  bg_name :: string
  bg_stem :: string
  bg_wrapper_src :: string

text \<open>
  Modelled from the spec: a source provider generates the file named by its stem with
  the extension \<open>.rs\<close>; an entry \<open>:name\<close> of \<open>srcs\<close> is a dependency on the source
  provider of that name, the other entries are files.
\<close>

definition outputFilename :: "RustBindgen \<Rightarrow> string" where
  "outputFilename b = bg_stem b @ ''.rs''"

definition sourceProviderDeps :: "RustBindgen list \<Rightarrow> string list \<Rightarrow> RustBindgen list" where
  "sourceProviderDeps providers srcs =
     concat (map (\<lambda>s. case s of
                         [] \<Rightarrow> []
                       | c # name \<Rightarrow>
                           if c = CHR '':'' then filter (\<lambda>b. bg_name b = name) providers else [])
                 srcs)"

text \<open>
  Modelled from the spec: the generated filenames are claimed one dependency after the
  other; a filename that an earlier dependency has claimed is an error whose message
  names it. The build fails when there is an error.
\<close>

definition collisionMessage :: "string \<Rightarrow> string" where
  "collisionMessage f = ''multiple source providers generate the same filename output: '' @ f"

fun claimOutputs :: "string list \<Rightarrow> string list \<Rightarrow> string list \<Rightarrow> string list" where
  "claimOutputs outputs errs [] = errs"
| "claimOutputs outputs errs (f # fs) =
     (if f \<in> set outputs then claimOutputs outputs (errs @ [collisionMessage f]) fs
      else claimOutputs (outputs @ [f]) errs fs)"

definition sourceProviderErrors :: "RustBindgen list \<Rightarrow> string list" where
  "sourceProviderErrors deps = claimOutputs [] [] (map outputFilename deps)"

definition buildFails :: "RustBindgen list \<Rightarrow> string list \<Rightarrow> bool" where
  "buildFails providers srcs = (sourceProviderErrors (sourceProviderDeps providers srcs) \<noteq> [])"

section \<open>Properties of the fixtures\<close>

subsection \<open>Boot jars\<close>

lemma artApex_iff: "artApex names j \<longleftrightarrow> (\<exists>a\<in>set names. prefix (a @ '':'') j)"
  by (induction names) auto

lemma artBootJarsLoop_filter:
  "artBootJarsLoop names jars acc = acc @ filter (artApex names) jars"
  by (induction jars arbitrary: acc) auto

text \<open>
  C10: \<open>FixtureConfigureBootJars\<close> passes to \<open>FixtureSetArtBootJars\<close> the jars of the input,
  in input order, that start with an ART apex name followed by a colon, and nothing else;
  it passes every input jar to \<open>FixtureSetBootJars\<close> and sets every input jar as the
  \<open>BootJars\<close> product variable.
\<close>

theorem FixtureConfigureBootJars_art:
  "FixtureConfigureBootJars artApexNames bootJars =
     GroupFixturePreparers
       [FixtureModifyProductVariables_BootJars bootJars,
        FixtureSetBootJars bootJars,
        FixtureSetArtBootJars
          (filter (\<lambda>j. \<exists>a\<in>set artApexNames. prefix (a @ '':'') j) bootJars),
        PrepareForTestWithFakeDex2oatd]"
  by (simp add: FixtureConfigureBootJars_def artBootJarsLoop_filter artApex_iff cong: filter_cong)

theorem FixtureConfigureBootJars_art_witness:
  "FixtureConfigureBootJars [''com.android.art'', ''com.android.art.debug'']
       [''com.android.art:core-oj'', ''platform:framework'', ''com.android.art.debug:okhttp'',
        ''com.android.artx:foo''] =
     GroupFixturePreparers
       [FixtureModifyProductVariables_BootJars
          [''com.android.art:core-oj'', ''platform:framework'', ''com.android.art.debug:okhttp'',
           ''com.android.artx:foo''],
        FixtureSetBootJars
          [''com.android.art:core-oj'', ''platform:framework'', ''com.android.art.debug:okhttp'',
           ''com.android.artx:foo''],
        FixtureSetArtBootJars [''com.android.art:core-oj'', ''com.android.art.debug:okhttp''],
        PrepareForTestWithFakeDex2oatd]"
  using FixtureConfigureBootJars_art
    [of "[''com.android.art'', ''com.android.art.debug'']"
        "[''com.android.art:core-oj'', ''platform:framework'', ''com.android.art.debug:okhttp'',
          ''com.android.artx:foo'']"]
  by simp

subsection \<open>Prebuilt APIs\<close>

text \<open>
  C9: for every list of module names, \<open>FixtureWithLastReleaseApis\<close> is the preparer of
  \<open>FixtureWithPrebuiltApis\<close> on the map with the single entry \<open>"30"\<close>, which is the preparer
  of \<open>FixtureWithPrebuiltApisAndExtensions\<close> on that map and the \<open>nil\<close> extensions map:
  the text file \<open>prebuilts/sdk/Android.bp\<close> with the one API directory \<open>30\<close>, and the
  prebuilt API files of the modules at level \<open>30\<close>.
\<close>

theorem FixtureWithLastReleaseApis_eq:
  "FixtureWithLastReleaseApis kindString systemModuleKind ns =
     FixtureWithPrebuiltApis kindString systemModuleKind [(''30'', ns)]
   \<and> FixtureWithLastReleaseApis kindString systemModuleKind ns =
     FixtureWithPrebuiltApisAndExtensions kindString systemModuleKind [(''30'', ns)] None
   \<and> FixtureWithLastReleaseApis kindString systemModuleKind ns =
     GroupFixturePreparers
       [FixtureAddTextFile ''prebuilts/sdk/Android.bp'' (prebuiltApisBp ''30''),
        FixtureMergeMockFs (prebuiltApisFilesForModules kindString systemModuleKind [''30''] ns)]"
  by (simp add: FixtureWithLastReleaseApis_def FixtureWithPrebuiltApis_def
        FixtureWithPrebuiltApisAndExtensions_def SortedStringKeys_def)

subsection \<open>Apex and name pairs\<close>

text \<open>
  C8: with an \<open>ApexInfo\<close> that is for the platform, \<open>apexNamePairFromModule\<close> returns
  \<open>platform:\<close> and the name. With one that is not, it reads \<open>InApexVariants[0]\<close> with no
  guard: it returns that entry, a colon and the name when \<open>InApexVariants\<close> has an entry,
  it panics with an index out of range when it has none, and it panics in no other case.
\<close>

theorem apexNamePairFromModule_cases:
  assumes "ModuleProvider m = Some apexInfo"
  shows "(IsForPlatform apexInfo \<longrightarrow>
            apexNamePairFromModule ModuleProvider IsForPlatform m = Inr (''platform:'' @ Name m))
       \<and> (\<not> IsForPlatform apexInfo \<longrightarrow>
            (InApexVariants apexInfo \<noteq> [] \<longrightarrow>
               apexNamePairFromModule ModuleProvider IsForPlatform m =
                 Inr (hd (InApexVariants apexInfo) @ '':'' @ Name m))
          \<and> (InApexVariants apexInfo = [] \<longrightarrow>
               apexNamePairFromModule ModuleProvider IsForPlatform m = Inl (IndexOutOfRange 0 0))
          \<and> ((\<exists>e. apexNamePairFromModule ModuleProvider IsForPlatform m = Inl e)
               \<longleftrightarrow> InApexVariants apexInfo = []))"
  using assms by (cases "InApexVariants apexInfo") (simp_all add: apexNamePairFromModule_def)

theorem apexNamePairFromModule_cases_witness:
  "apexNamePairFromModule
      (\<lambda>m. Some \<lparr>ApexVariationName = ''apex1000'', InApexVariants = [''myapex'']\<rparr>)
      (\<lambda>i. ApexVariationName i = [])
      \<lparr>Name = ''foo'', Kind = Library, ApexAvailable = [''myapex'']\<rparr> = Inr ''myapex:foo''
   \<and> apexNamePairFromModule
      (\<lambda>m. Some \<lparr>ApexVariationName = '''', InApexVariants = []\<rparr>)
      (\<lambda>i. ApexVariationName i = [])
      \<lparr>Name = ''bar'', Kind = Library, ApexAvailable = []\<rparr> = Inr ''platform:bar''
   \<and> apexNamePairFromModule
      (\<lambda>m. Some \<lparr>ApexVariationName = ''apex1000'', InApexVariants = []\<rparr>)
      (\<lambda>i. ApexVariationName i = [])
      \<lparr>Name = ''baz'', Kind = Library, ApexAvailable = []\<rparr> = Inl (IndexOutOfRange 0 0)"
  using
    apexNamePairFromModule_cases
      [of "\<lambda>m. Some \<lparr>ApexVariationName = ''apex1000'', InApexVariants = [''myapex'']\<rparr>"
          "\<lparr>Name = ''foo'', Kind = Library, ApexAvailable = [''myapex'']\<rparr>"
          "\<lparr>ApexVariationName = ''apex1000'', InApexVariants = [''myapex'']\<rparr>"
          "\<lambda>i. ApexVariationName i = []"]
    apexNamePairFromModule_cases
      [of "\<lambda>m. Some \<lparr>ApexVariationName = '''', InApexVariants = []\<rparr>"
          "\<lparr>Name = ''bar'', Kind = Library, ApexAvailable = []\<rparr>"
          "\<lparr>ApexVariationName = '''', InApexVariants = []\<rparr>"
          "\<lambda>i. ApexVariationName i = []"]
    apexNamePairFromModule_cases
      [of "\<lambda>m. Some \<lparr>ApexVariationName = ''apex1000'', InApexVariants = []\<rparr>"
          "\<lparr>Name = ''baz'', Kind = Library, ApexAvailable = []\<rparr>"
          "\<lparr>ApexVariationName = ''apex1000'', InApexVariants = []\<rparr>"
          "\<lambda>i. ApexVariationName i = []"]
  by simp

subsection \<open>The write-once lookup of the legacy core platform API\<close>





section \<open>Properties of the engine\<close>

subsection \<open>Variations and providers\<close>

lemma moduleAt_Some: "moduleAt g h = Some node \<longleftrightarrow> h < length (g_nodes g) \<and> node = g_nodes g ! h"
  by (auto simp: moduleAt_def)

lemma moduleAt_None: "moduleAt g h = None \<longleftrightarrow> \<not> h < length (g_nodes g)"
  by (simp add: moduleAt_def)

lemma CreateVariations_ok:
  assumes "moduleAt g m = Some node" and "\<not> mv_split node" and "vals \<noteq> []"
  shows "CreateVariations g m axis vals =
           Inr (g\<lparr>g_nodes := (g_nodes g)[m := node\<lparr>mv_split := True\<rparr>] @
                     map (\<lambda>v. \<lparr>mv_module = mv_module node,
                               mv_variations = mv_variations node @ [(axis, v)],
                               mv_split = False,
                               mv_providers = Map.empty\<rparr>) vals\<rparr>,
                [length (g_nodes g)..<length (g_nodes g) + length vals])"
  using assms by (simp add: CreateVariations_def Let_def)

lemma CreateVariations_Inr:
  assumes "CreateVariations g m axis vals = Inr (g1, hs)"
  shows "\<exists>node. moduleAt g m = Some node \<and> \<not> mv_split node \<and> vals \<noteq> []"
  using assms by (auto simp: CreateVariations_def Let_def split: option.splits if_splits)

lemma GetProvider_SetProvider:
  assumes "SetProvider g h p x = Inr g1"
  shows "GetProvider g1 h' q = (if h' = h \<and> q = p then Some x else GetProvider g h' q)"
  using assms
  by (auto simp: SetProvider_def GetProvider_def moduleAt_def nth_list_update
           split: option.splits if_splits)

lemma SetProvider_unset:
  assumes "moduleAt g h = Some node" and "mv_providers node p = None"
  shows "SetProvider g h p x =
           Inr (g\<lparr>g_nodes := (g_nodes g)[h := node\<lparr>mv_providers := (mv_providers node)(p \<mapsto> x)\<rparr>]\<rparr>)"
  using assms by (simp add: SetProvider_def)

lemma CreateVariations_moduleAt_new:
  assumes "CreateVariations g m axis vals = Inr (g1, hs)" and "i < length vals"
  shows "hs ! i = length (g_nodes g) + i \<and>
         (\<exists>node. moduleAt g m = Some node \<and>
            moduleAt g1 (hs ! i) =
              Some \<lparr>mv_module = mv_module node,
                    mv_variations = mv_variations node @ [(axis, vals ! i)],
                    mv_split = False,
                    mv_providers = Map.empty\<rparr>)"
proof -
  obtain node where n: "moduleAt g m = Some node" "\<not> mv_split node" "vals \<noteq> []"
    using CreateVariations_Inr [OF assms(1)] by blast
  from assms(1) CreateVariations_ok [OF n, of axis]
  have g1: "g1 = g\<lparr>g_nodes := (g_nodes g)[m := node\<lparr>mv_split := True\<rparr>] @
                     map (\<lambda>v. \<lparr>mv_module = mv_module node,
                               mv_variations = mv_variations node @ [(axis, v)],
                               mv_split = False,
                               mv_providers = Map.empty\<rparr>) vals\<rparr>"
    and hs: "hs = [length (g_nodes g)..<length (g_nodes g) + length vals]"
    by simp_all
  show ?thesis
    using assms(2) n(1) by (simp add: g1 hs moduleAt_def nth_append)
qed

lemma CreateVariations_GetProvider_old:
  assumes "CreateVariations g m axis vals = Inr (g1, hs)"
  shows "GetProvider g1 h q = GetProvider g h q"
proof -
  obtain node where n: "moduleAt g m = Some node" "\<not> mv_split node" "vals \<noteq> []"
    using CreateVariations_Inr [OF assms(1)] by blast
  from assms(1) CreateVariations_ok [OF n, of axis]
  have g1: "g1 = g\<lparr>g_nodes := (g_nodes g)[m := node\<lparr>mv_split := True\<rparr>] @
                     map (\<lambda>v. \<lparr>mv_module = mv_module node,
                               mv_variations = mv_variations node @ [(axis, v)],
                               mv_split = False,
                               mv_providers = Map.empty\<rparr>) vals\<rparr>"
    by simp
  show ?thesis
    using n(1)
    by (cases "h = m")
       (auto simp: g1 GetProvider_def moduleAt_def nth_append nth_list_update split: if_splits)
qed

text \<open>
  C2: on every module that can be split, \<open>CreateVariations\<close> with the two values \<open>""\<close> and
  \<open>X\<close> returns exactly two handles, the first for \<open>""\<close> and the second for \<open>X\<close>. A provider
  value written to the second handle afterwards is written, is read back through the
  second handle, and no provider is read through the first.
\<close>

theorem CreateVariations_two_handles:
  assumes "moduleAt g m = Some node" and "\<not> mv_split node"
  shows "\<exists>g1 hs.
           CreateVariations g m axis ['''', X] = Inr (g1, hs)
         \<and> length hs = 2 \<and> hs ! 0 \<noteq> hs ! 1
         \<and> map_option mv_variations (moduleAt g1 (hs ! 0)) = Some (mv_variations node @ [(axis, '''')])
         \<and> map_option mv_variations (moduleAt g1 (hs ! 1)) = Some (mv_variations node @ [(axis, X)])
         \<and> (\<exists>g2. SetProvider g1 (hs ! 1) p x = Inr g2
                \<and> GetProvider g2 (hs ! 1) p = Some x
                \<and> (\<forall>q. GetProvider g2 (hs ! 0) q = None))"
proof -
  let ?vals = "['''', X]"
  obtain g1 hs where cv: "CreateVariations g m axis ?vals = Inr (g1, hs)"
    using CreateVariations_ok [OF assms, of ?vals axis] by simp
  have len: "hs = [length (g_nodes g), Suc (length (g_nodes g))]"
    using cv CreateVariations_ok [OF assms, of ?vals axis] by (simp add: upt_rec)
  have n0: "moduleAt g1 (hs ! 0) =
              Some \<lparr>mv_module = mv_module node, mv_variations = mv_variations node @ [(axis, '''')],
                    mv_split = False, mv_providers = Map.empty\<rparr>"
    using CreateVariations_moduleAt_new [OF cv, of 0] assms(1) by auto
  have n1: "moduleAt g1 (hs ! 1) =
              Some \<lparr>mv_module = mv_module node, mv_variations = mv_variations node @ [(axis, X)],
                    mv_split = False, mv_providers = Map.empty\<rparr>"
    using CreateVariations_moduleAt_new [OF cv, of 1] assms(1) by auto
  obtain g2 where sp: "SetProvider g1 (hs ! 1) p x = Inr g2"
    using SetProvider_unset [OF n1, of p x] by simp
  have get1: "GetProvider g2 (hs ! 1) p = Some x"
    using GetProvider_SetProvider [OF sp] by simp
  have get0: "GetProvider g2 (hs ! 0) q = None" for q
    using GetProvider_SetProvider [OF sp, of "hs ! 0" q] n0
    by (simp add: len GetProvider_def)
  show ?thesis
    using cv len n0 n1 sp get1 get0 by auto
qed

theorem CreateVariations_two_handles_witness:
  "moduleAt \<lparr>g_nodes = [\<lparr>mv_module = \<lparr>Name = ''foo'', Kind = Library, ApexAvailable = [''myapex'']\<rparr>,
                          mv_variations = [], mv_split = False, mv_providers = Map.empty\<rparr>],
            g_edges = []\<rparr> 0
     = Some \<lparr>mv_module = \<lparr>Name = ''foo'', Kind = Library, ApexAvailable = [''myapex'']\<rparr>,
             mv_variations = [], mv_split = False, mv_providers = Map.empty\<rparr>
   \<and> (\<exists>g1 g2.
         CreateVariations
           \<lparr>g_nodes = [\<lparr>mv_module = \<lparr>Name = ''foo'', Kind = Library, ApexAvailable = [''myapex'']\<rparr>,
                        mv_variations = [], mv_split = False, mv_providers = Map.empty\<rparr>],
            g_edges = []\<rparr> 0 ''apex'' ['''', ''X''] = Inr (g1, [1, 2])
       \<and> SetProvider g1 2 ApexInfoProvider (7::nat) = Inr g2
       \<and> GetProvider g2 2 ApexInfoProvider = Some 7
       \<and> GetProvider g2 1 ApexInfoProvider = None)"
  using CreateVariations_two_handles
    [of "\<lparr>g_nodes = [\<lparr>mv_module = \<lparr>Name = ''foo'', Kind = Library, ApexAvailable = [''myapex'']\<rparr>,
                          mv_variations = [], mv_split = False, mv_providers = Map.empty\<rparr>],
            g_edges = []\<rparr>" 0
        "\<lparr>mv_module = \<lparr>Name = ''foo'', Kind = Library, ApexAvailable = [''myapex'']\<rparr>,
             mv_variations = [], mv_split = False, mv_providers = Map.empty\<rparr>"
        "''apex''" "''X''" ApexInfoProvider "7::nat"]
  by (simp add: CreateVariations_def SetProvider_def GetProvider_def moduleAt_def upt_rec)

subsection \<open>The fake APEX mutator\<close>

lemma mctxCreateVariations_ok:
  assumes "moduleAt (mc_graph mctx) (mc_module mctx) = Some node" and "\<not> mv_split node"
    and "vals \<noteq> []"
  shows "\<exists>g1. CreateVariations (mc_graph mctx) (mc_module mctx) (mc_mutator mctx) vals =
                Inr (g1, [length (g_nodes (mc_graph mctx))..<length (g_nodes (mc_graph mctx)) + length vals])
            \<and> mctxCreateVariations mctx vals =
                Inr (mctx\<lparr>mc_graph := g1\<rparr>,
                     [length (g_nodes (mc_graph mctx))..<length (g_nodes (mc_graph mctx)) + length vals])"
  using CreateVariations_ok [OF assms, of "mc_mutator mctx"]
  by (simp add: mctxCreateVariations_def)

lemma fakeApexMutator_other:
  assumes "moduleAt (mc_graph mctx) (mc_module mctx) = Some node"
    and "Kind (mv_module node) = OtherModule \<or> ApexAvailable (mv_module node) = []"
  shows "fakeApexMutator mctx = Inr mctx"
  using assms
  by (auto simp: fakeApexMutator_def mctxModule_def split: ModuleKind.splits)

lemma fakeApexMutator_split:
  assumes "moduleAt (mc_graph mctx) (mc_module mctx) = Some node"
    and "Kind (mv_module node) = Library \<or> Kind (mv_module node) = SdkLibrary"
    and "ApexAvailable (mv_module node) \<noteq> []" and "mv_split node"
  shows "fakeApexMutator mctx = Inl VariationError"
  using assms
  by (auto simp: fakeApexMutator_def mctxModule_def mctxCreateVariations_def
        CreateVariations_def split: ModuleKind.splits)

lemma fakeApexMutator_creates:
  assumes node: "moduleAt (mc_graph mctx) (mc_module mctx) = Some node"
    and kind: "Kind (mv_module node) = Library \<or> Kind (mv_module node) = SdkLibrary"
    and avail: "ApexAvailable (mv_module node) \<noteq> []" and unsplit: "\<not> mv_split node"
  shows "\<exists>mctx1 modules mctx2.
           mctxCreateVariations mctx ['''', ''apex1000''] = Inr (mctx1, modules)
         \<and> modules = [length (g_nodes (mc_graph mctx)), Suc (length (g_nodes (mc_graph mctx)))]
         \<and> mctxSetVariationProvider mctx1 (modules ! 1) ApexInfoProvider
              \<lparr>ApexVariationName = ''apex1000'', InApexVariants = []\<rparr> = Inr mctx2
         \<and> fakeApexMutator mctx = Inr mctx2
         \<and> map_option mv_variations (moduleAt (mc_graph mctx2) (modules ! 0)) =
              Some (mv_variations node @ [(mc_mutator mctx, '''')])
         \<and> map_option mv_variations (moduleAt (mc_graph mctx2) (modules ! 1)) =
              Some (mv_variations node @ [(mc_mutator mctx, ''apex1000'')])
         \<and> length (g_nodes (mc_graph mctx2)) = length (g_nodes (mc_graph mctx)) + 2
         \<and> g_edges (mc_graph mctx2) = g_edges (mc_graph mctx)
         \<and> (\<forall>h q. GetProvider (mc_graph mctx2) h q =
                (if h = modules ! 1 \<and> q = ApexInfoProvider
                 then Some \<lparr>ApexVariationName = ''apex1000'', InApexVariants = []\<rparr>
                 else GetProvider (mc_graph mctx) h q))"
proof -
  let ?g = "mc_graph mctx" and ?n = "length (g_nodes (mc_graph mctx))"
  let ?info = "\<lparr>ApexVariationName = ''apex1000'', InApexVariants = []\<rparr>"
  obtain g1 where cv: "CreateVariations ?g (mc_module mctx) (mc_mutator mctx) ['''', ''apex1000'']
                         = Inr (g1, [?n, Suc ?n])"
    and mcv: "mctxCreateVariations mctx ['''', ''apex1000''] = Inr (mctx\<lparr>mc_graph := g1\<rparr>, [?n, Suc ?n])"
    using mctxCreateVariations_ok [OF node unsplit, of "['''', ''apex1000'']"]
    by (auto simp: upt_rec)
  have n0: "moduleAt g1 ?n =
              Some \<lparr>mv_module = mv_module node,
                    mv_variations = mv_variations node @ [(mc_mutator mctx, '''')],
                    mv_split = False, mv_providers = Map.empty\<rparr>"
    using CreateVariations_moduleAt_new [OF cv, of 0] node by auto
  have n1: "moduleAt g1 (Suc ?n) =
              Some \<lparr>mv_module = mv_module node,
                    mv_variations = mv_variations node @ [(mc_mutator mctx, ''apex1000'')],
                    mv_split = False, mv_providers = Map.empty\<rparr>"
    using CreateVariations_moduleAt_new [OF cv, of 1] node by auto
  obtain g2 where sp: "SetProvider g1 (Suc ?n) ApexInfoProvider ?info = Inr g2"
    and g2: "g2 = g1\<lparr>g_nodes := (g_nodes g1)[Suc ?n :=
                 \<lparr>mv_module = mv_module node,
                  mv_variations = mv_variations node @ [(mc_mutator mctx, ''apex1000'')],
                  mv_split = False, mv_providers = [ApexInfoProvider \<mapsto> ?info]\<rparr>]\<rparr>"
    using SetProvider_unset [OF n1, of ApexInfoProvider ?info] by simp
  have msp: "mctxSetVariationProvider (mctx\<lparr>mc_graph := g1\<rparr>) (Suc ?n) ApexInfoProvider ?info
               = Inr (mctx\<lparr>mc_graph := g2\<rparr>)"
    using sp by (simp add: mctxSetVariationProvider_def)
  have fam: "fakeApexMutator mctx = Inr (mctx\<lparr>mc_graph := g2\<rparr>)"
    using node kind avail mcv msp
    by (auto simp: fakeApexMutator_def mctxModule_def split: ModuleKind.splits)
  have len1: "length (g_nodes g1) = ?n + 2" and edges1: "g_edges g1 = g_edges ?g"
    using cv CreateVariations_ok [OF node unsplit, of "['''', ''apex1000'']" "mc_mutator mctx"]
    by auto
  have v0: "map_option mv_variations (moduleAt g2 ?n) =
              Some (mv_variations node @ [(mc_mutator mctx, '''')])"
    using n0 by (auto simp: g2 moduleAt_def split: if_splits)
  have v1: "map_option mv_variations (moduleAt g2 (Suc ?n)) =
              Some (mv_variations node @ [(mc_mutator mctx, ''apex1000'')])"
    using n1 by (auto simp: g2 moduleAt_def split: if_splits)
  have prov: "GetProvider g2 h q =
                (if h = Suc ?n \<and> q = ApexInfoProvider then Some ?info else GetProvider ?g h q)"
    for h q
    using GetProvider_SetProvider [OF sp, of h q] CreateVariations_GetProvider_old [OF cv, of h q]
    by simp
  show ?thesis
    using mcv msp fam v0 v1 len1 edges1 prov by (simp add: g2)
qed

text \<open>
  C1: on a \<open>Library\<close> or \<open>SdkLibrary\<close> with a non-empty \<open>ApexAvailable\<close>, \<open>fakeApexMutator\<close>
  calls \<open>CreateVariations\<close> with the values \<open>""\<close> and \<open>apex1000\<close>, which gives the platform
  variant at index 0 and the apex variant at index 1, and sets the \<open>ApexInfo\<close> provider
  with \<open>ApexVariationName\<close> \<open>apex1000\<close> on the variant at index 1; every other provider slot
  of every node reads as before and the edges are unchanged. When the node has been split
  already the call to \<open>CreateVariations\<close> fails. On every other module the mutator changes
  nothing.
\<close>

theorem fakeApexMutator_effect:
  assumes "moduleAt (mc_graph mctx) (mc_module mctx) = Some node"
  shows "((Kind (mv_module node) = Library \<or> Kind (mv_module node) = SdkLibrary)
            \<and> ApexAvailable (mv_module node) \<noteq> [] \<and> \<not> mv_split node \<longrightarrow>
          (\<exists>mctx1 modules mctx2.
             mctxCreateVariations mctx ['''', ''apex1000''] = Inr (mctx1, modules)
           \<and> modules = [length (g_nodes (mc_graph mctx)), Suc (length (g_nodes (mc_graph mctx)))]
           \<and> mctxSetVariationProvider mctx1 (modules ! 1) ApexInfoProvider
                \<lparr>ApexVariationName = ''apex1000'', InApexVariants = []\<rparr> = Inr mctx2
           \<and> fakeApexMutator mctx = Inr mctx2
           \<and> map_option mv_variations (moduleAt (mc_graph mctx2) (modules ! 0)) =
                Some (mv_variations node @ [(mc_mutator mctx, '''')])
           \<and> map_option mv_variations (moduleAt (mc_graph mctx2) (modules ! 1)) =
                Some (mv_variations node @ [(mc_mutator mctx, ''apex1000'')])
           \<and> length (g_nodes (mc_graph mctx2)) = length (g_nodes (mc_graph mctx)) + 2
           \<and> g_edges (mc_graph mctx2) = g_edges (mc_graph mctx)
           \<and> (\<forall>h q. GetProvider (mc_graph mctx2) h q =
                  (if h = modules ! 1 \<and> q = ApexInfoProvider
                   then Some \<lparr>ApexVariationName = ''apex1000'', InApexVariants = []\<rparr>
                   else GetProvider (mc_graph mctx) h q))))
       \<and> ((Kind (mv_module node) = Library \<or> Kind (mv_module node) = SdkLibrary)
            \<and> ApexAvailable (mv_module node) \<noteq> [] \<and> mv_split node \<longrightarrow>
          fakeApexMutator mctx = Inl VariationError)
       \<and> (Kind (mv_module node) = OtherModule \<or> ApexAvailable (mv_module node) = [] \<longrightarrow>
          fakeApexMutator mctx = Inr mctx)"
  using fakeApexMutator_creates [OF assms] fakeApexMutator_split [OF assms]
    fakeApexMutator_other [OF assms]
  by blast

theorem fakeApexMutator_effect_witness:
  "fakeApexMutator
     \<lparr>mc_graph =
        \<lparr>g_nodes = [\<lparr>mv_module = \<lparr>Name = ''foo'', Kind = Library, ApexAvailable = [''myapex'']\<rparr>,
                     mv_variations = [], mv_split = False, mv_providers = Map.empty\<rparr>,
                    \<lparr>mv_module = \<lparr>Name = ''bar'', Kind = OtherModule, ApexAvailable = [''myapex'']\<rparr>,
                     mv_variations = [], mv_split = False, mv_providers = Map.empty\<rparr>],
         g_edges = [(0, 1, ''lib'')]\<rparr>,
      mc_module = 0, mc_mutator = ''apex''\<rparr>
   = Inr \<lparr>mc_graph =
        \<lparr>g_nodes = [\<lparr>mv_module = \<lparr>Name = ''foo'', Kind = Library, ApexAvailable = [''myapex'']\<rparr>,
                     mv_variations = [], mv_split = True, mv_providers = Map.empty\<rparr>,
                    \<lparr>mv_module = \<lparr>Name = ''bar'', Kind = OtherModule, ApexAvailable = [''myapex'']\<rparr>,
                     mv_variations = [], mv_split = False, mv_providers = Map.empty\<rparr>,
                    \<lparr>mv_module = \<lparr>Name = ''foo'', Kind = Library, ApexAvailable = [''myapex'']\<rparr>,
                     mv_variations = [(''apex'', '''')], mv_split = False,
                     mv_providers = Map.empty\<rparr>,
                    \<lparr>mv_module = \<lparr>Name = ''foo'', Kind = Library, ApexAvailable = [''myapex'']\<rparr>,
                     mv_variations = [(''apex'', ''apex1000'')], mv_split = False,
                     mv_providers = [ApexInfoProvider \<mapsto>
                        \<lparr>ApexVariationName = ''apex1000'', InApexVariants = []\<rparr>]\<rparr>],
         g_edges = [(0, 1, ''lib'')]\<rparr>,
      mc_module = 0, mc_mutator = ''apex''\<rparr>
  \<and> fakeApexMutator
     \<lparr>mc_graph =
        \<lparr>g_nodes = [\<lparr>mv_module = \<lparr>Name = ''foo'', Kind = Library, ApexAvailable = [''myapex'']\<rparr>,
                     mv_variations = [], mv_split = False, mv_providers = Map.empty\<rparr>,
                    \<lparr>mv_module = \<lparr>Name = ''bar'', Kind = OtherModule, ApexAvailable = [''myapex'']\<rparr>,
                     mv_variations = [], mv_split = False, mv_providers = Map.empty\<rparr>],
         g_edges = [(0, 1, ''lib'')]\<rparr>,
      mc_module = 1, mc_mutator = ''apex''\<rparr>
   = Inr \<lparr>mc_graph =
        \<lparr>g_nodes = [\<lparr>mv_module = \<lparr>Name = ''foo'', Kind = Library, ApexAvailable = [''myapex'']\<rparr>,
                     mv_variations = [], mv_split = False, mv_providers = Map.empty\<rparr>,
                    \<lparr>mv_module = \<lparr>Name = ''bar'', Kind = OtherModule, ApexAvailable = [''myapex'']\<rparr>,
                     mv_variations = [], mv_split = False, mv_providers = Map.empty\<rparr>],
         g_edges = [(0, 1, ''lib'')]\<rparr>,
      mc_module = 1, mc_mutator = ''apex''\<rparr>"
  using
    fakeApexMutator_effect
      [of "\<lparr>mc_graph =
        \<lparr>g_nodes = [\<lparr>mv_module = \<lparr>Name = ''foo'', Kind = Library, ApexAvailable = [''myapex'']\<rparr>,
                     mv_variations = [], mv_split = False, mv_providers = Map.empty\<rparr>,
                    \<lparr>mv_module = \<lparr>Name = ''bar'', Kind = OtherModule, ApexAvailable = [''myapex'']\<rparr>,
                     mv_variations = [], mv_split = False, mv_providers = Map.empty\<rparr>],
         g_edges = [(0, 1, ''lib'')]\<rparr>,
      mc_module = 0, mc_mutator = ''apex''\<rparr>"
        "\<lparr>mv_module = \<lparr>Name = ''foo'', Kind = Library, ApexAvailable = [''myapex'']\<rparr>,
                     mv_variations = [], mv_split = False, mv_providers = Map.empty\<rparr>"]
    fakeApexMutator_effect
      [of "\<lparr>mc_graph =
        \<lparr>g_nodes = [\<lparr>mv_module = \<lparr>Name = ''foo'', Kind = Library, ApexAvailable = [''myapex'']\<rparr>,
                     mv_variations = [], mv_split = False, mv_providers = Map.empty\<rparr>,
                    \<lparr>mv_module = \<lparr>Name = ''bar'', Kind = OtherModule, ApexAvailable = [''myapex'']\<rparr>,
                     mv_variations = [], mv_split = False, mv_providers = Map.empty\<rparr>],
         g_edges = [(0, 1, ''lib'')]\<rparr>,
      mc_module = 1, mc_mutator = ''apex''\<rparr>"
        "\<lparr>mv_module = \<lparr>Name = ''bar'', Kind = OtherModule, ApexAvailable = [''myapex'']\<rparr>,
                     mv_variations = [], mv_split = False, mv_providers = Map.empty\<rparr>"]
  by (simp add: fakeApexMutator_def mctxModule_def mctxCreateVariations_def
        mctxSetVariationProvider_def CreateVariations_def SetProvider_def moduleAt_def upt_rec)

subsection \<open>Visiting direct dependencies\<close>

lemma foldl_snoc_log: "foldl (\<lambda>acc h. acc @ [h]) s xs = s @ xs"
  by (induction xs arbitrary: s) auto

lemma VisitDirectDeps_log:
  "VisitDirectDeps g m (\<lambda>h log. log @ [h]) [] = directDeps g m"
  by (simp add: VisitDirectDeps_def foldl_snoc_log)

lemma AddDependency_Inr:
  assumes "AddDependency g src toName tag = Inr g1"
  shows "\<exists>h. candidates g toName = [h] \<and> g1 = g\<lparr>g_edges := g_edges g @ [(src, h, tag)]\<rparr>"
  using assms
  by (auto simp: AddDependency_def split: if_splits list.splits)

text \<open>
  C5: \<open>VisitDirectDeps\<close> visits the direct dependencies of a module in the order in which
  its edges were inserted: the visit log is the list of the targets of the module's
  edges in the order of the edge list, and a dependency added by \<open>AddDependency\<close> is
  visited after the earlier ones and changes the visits of no other module. The visits
  are the same on two graphs with the same edge list.
\<close>

theorem VisitDirectDeps_insertion_order:
  "VisitDirectDeps g m (\<lambda>h log. log @ [h]) [] =
      map (\<lambda>e. fst (snd e)) (filter (\<lambda>e. fst e = m) (g_edges g))
   \<and> (\<forall>g1. AddDependency g src toName tag = Inr g1 \<longrightarrow>
         (\<exists>h. candidates g toName = [h]
            \<and> VisitDirectDeps g1 src (\<lambda>h log. log @ [h]) [] =
                VisitDirectDeps g src (\<lambda>h log. log @ [h]) [] @ [h])
         \<and> (\<forall>m'. m' \<noteq> src \<longrightarrow> VisitDirectDeps g1 m' fn s = VisitDirectDeps g m' fn s))
   \<and> (g_edges g2 = g_edges g \<longrightarrow> VisitDirectDeps g2 m fn s = VisitDirectDeps g m fn s)"
proof (intro conjI allI impI)
  show "VisitDirectDeps g m (\<lambda>h log. log @ [h]) [] =
      map (\<lambda>e. fst (snd e)) (filter (\<lambda>e. fst e = m) (g_edges g))"
    by (simp add: VisitDirectDeps_log directDeps_def)
next
  fix g1 assume "AddDependency g src toName tag = Inr g1"
  then obtain h where h: "candidates g toName = [h]"
    and g1: "g1 = g\<lparr>g_edges := g_edges g @ [(src, h, tag)]\<rparr>"
    using AddDependency_Inr by blast
  show "\<exists>h. candidates g toName = [h]
            \<and> VisitDirectDeps g1 src (\<lambda>h log. log @ [h]) [] =
                VisitDirectDeps g src (\<lambda>h log. log @ [h]) [] @ [h]"
    using h by (simp add: g1 VisitDirectDeps_log directDeps_def)
  fix m' assume "m' \<noteq> src"
  then show "VisitDirectDeps g1 m' fn s = VisitDirectDeps g m' fn s"
    by (simp add: g1 VisitDirectDeps_def directDeps_def)
next
  assume "g_edges g2 = g_edges g"
  then show "VisitDirectDeps g2 m fn s = VisitDirectDeps g m fn s"
    by (simp add: VisitDirectDeps_def directDeps_def)
qed

theorem VisitDirectDeps_insertion_order_witness:
  "AddDependency
     \<lparr>g_nodes = [\<lparr>mv_module = \<lparr>Name = ''a'', Kind = Library, ApexAvailable = []\<rparr>,
                  mv_variations = [], mv_split = False, mv_providers = Map.empty\<rparr>,
                 \<lparr>mv_module = \<lparr>Name = ''b'', Kind = Library, ApexAvailable = []\<rparr>,
                  mv_variations = [], mv_split = False, mv_providers = Map.empty\<rparr>,
                 \<lparr>mv_module = \<lparr>Name = ''c'', Kind = Library, ApexAvailable = []\<rparr>,
                  mv_variations = [], mv_split = False,
                  mv_providers = (Map.empty :: ProviderId \<rightharpoonup> ApexInfo)\<rparr>],
      g_edges = [(0, 2, ''libs'')]\<rparr> 0 ''b'' ''libs''
   = Inr \<lparr>g_nodes = [\<lparr>mv_module = \<lparr>Name = ''a'', Kind = Library, ApexAvailable = []\<rparr>,
                  mv_variations = [], mv_split = False, mv_providers = Map.empty\<rparr>,
                 \<lparr>mv_module = \<lparr>Name = ''b'', Kind = Library, ApexAvailable = []\<rparr>,
                  mv_variations = [], mv_split = False, mv_providers = Map.empty\<rparr>,
                 \<lparr>mv_module = \<lparr>Name = ''c'', Kind = Library, ApexAvailable = []\<rparr>,
                  mv_variations = [], mv_split = False, mv_providers = Map.empty\<rparr>],
      g_edges = [(0, 2, ''libs''), (0, 1, ''libs'')]\<rparr>
   \<and> VisitDirectDeps
     \<lparr>g_nodes = [\<lparr>mv_module = \<lparr>Name = ''a'', Kind = Library, ApexAvailable = []\<rparr>,
                  mv_variations = [], mv_split = False, mv_providers = Map.empty\<rparr>,
                 \<lparr>mv_module = \<lparr>Name = ''b'', Kind = Library, ApexAvailable = []\<rparr>,
                  mv_variations = [], mv_split = False, mv_providers = Map.empty\<rparr>,
                 \<lparr>mv_module = \<lparr>Name = ''c'', Kind = Library, ApexAvailable = []\<rparr>,
                  mv_variations = [], mv_split = False,
                  mv_providers = (Map.empty :: ProviderId \<rightharpoonup> ApexInfo)\<rparr>],
      g_edges = [(0, 2, ''libs''), (0, 1, ''libs'')]\<rparr> 0 (\<lambda>h log. log @ [h]) [] = [2, 1]"
  using VisitDirectDeps_insertion_order
    [of "\<lparr>g_nodes = [\<lparr>mv_module = \<lparr>Name = ''a'', Kind = Library, ApexAvailable = []\<rparr>,
                  mv_variations = [], mv_split = False, mv_providers = Map.empty\<rparr>,
                 \<lparr>mv_module = \<lparr>Name = ''b'', Kind = Library, ApexAvailable = []\<rparr>,
                  mv_variations = [], mv_split = False, mv_providers = Map.empty\<rparr>,
                 \<lparr>mv_module = \<lparr>Name = ''c'', Kind = Library, ApexAvailable = []\<rparr>,
                  mv_variations = [], mv_split = False,
                  mv_providers = (Map.empty :: ProviderId \<rightharpoonup> ApexInfo)\<rparr>],
      g_edges = [(0, 2, ''libs'')]\<rparr>" 0 0 "''b''" "''libs''"
      "\<lambda>h log. log @ [h]" "[]"
      "\<lparr>g_nodes = [], g_edges = [(0, 2, ''libs'')]\<rparr>"]
  by (simp add: AddDependency_def candidates_def VisitDirectDeps_def directDeps_def upt_rec)

section \<open>Properties of the source providers\<close>

lemma claimOutputs_keeps_errs: "set errs \<subseteq> set (claimOutputs outputs errs fs)"
proof (induction fs arbitrary: outputs errs)
  case Nil
  then show ?case by simp
next
  case (Cons f fs)
  show ?case
  proof (cases "f \<in> set outputs")
    case True
    then show ?thesis using Cons [of "errs @ [collisionMessage f]" outputs] by auto
  next
    case False
    then show ?thesis using Cons [of errs "outputs @ [f]"] by auto
  qed
qed

lemma claimOutputs_claimed:
  "f \<in> set fs \<Longrightarrow> f \<in> set outputs \<Longrightarrow>
     collisionMessage f \<in> set (claimOutputs outputs errs fs)"
proof (induction fs arbitrary: outputs errs)
  case Nil
  then show ?case by simp
next
  case (Cons a fs)
  show ?case
  proof (cases "a = f")
    case True
    then show ?thesis
      using Cons.prems claimOutputs_keeps_errs [of "errs @ [collisionMessage f]" outputs fs]
      by auto
  next
    case False
    then have "f \<in> set fs" using Cons.prems by simp
    then show ?thesis
      using Cons.IH [of outputs "errs @ [collisionMessage a]"]
        Cons.IH [of "outputs @ [a]" errs] Cons.prems(2)
      by auto
  qed
qed

lemma claimOutputs_pair:
  "i < j \<Longrightarrow> j < length fs \<Longrightarrow> fs ! i = fs ! j \<Longrightarrow>
     collisionMessage (fs ! j) \<in> set (claimOutputs outputs errs fs)"
proof (induction fs arbitrary: i j outputs errs)
  case Nil
  then show ?case by simp
next
  case (Cons a fs)
  obtain j' where j': "j = Suc j'" using Cons.prems(1) by (cases j) auto
  show ?case
  proof (cases i)
    case 0
    then have eq: "fs ! j' = a" and mem: "a \<in> set fs"
      using Cons.prems j' by (auto simp: in_set_conv_nth)
    show ?thesis
    proof (cases "a \<in> set outputs")
      case True
      then show ?thesis
        using claimOutputs_keeps_errs [of "errs @ [collisionMessage a]" outputs fs] eq j'
        by auto
    next
      case False
      then show ?thesis
        using claimOutputs_claimed [OF mem, of "outputs @ [a]" errs] eq j' by simp
    qed
  next
    case (Suc i')
    then have "i' < j'" "j' < length fs" "fs ! i' = fs ! j'"
      using Cons.prems j' by auto
    then show ?thesis
      using Cons.IH [of i' j' outputs "errs @ [collisionMessage a]"]
        Cons.IH [of i' j' "outputs @ [a]" errs] j'
      by auto
  qed
qed

lemma claimOutputs_distinct:
  "distinct (outputs @ fs) \<Longrightarrow> claimOutputs outputs errs fs = errs"
  by (induction fs arbitrary: outputs errs) auto

text \<open>
  C4: when two source-providing dependencies of a module generate the same filename, the
  build fails and an error message names that filename: for the stem \<open>s\<close> the message is
  \<open>multiple source providers generate the same filename output:\<close> followed by \<open>s.rs\<close>.
\<close>

theorem sourceProvider_collision:
  assumes "i < j" and "j < length deps"
    and "outputFilename (deps ! i) = outputFilename (deps ! j)"
  shows "sourceProviderErrors deps \<noteq> []
       \<and> ''multiple source providers generate the same filename output: ''
            @ bg_stem (deps ! j) @ ''.rs'' \<in> set (sourceProviderErrors deps)"
proof -
  have "collisionMessage (map outputFilename deps ! j)
          \<in> set (claimOutputs [] [] (map outputFilename deps))"
    using assms by (intro claimOutputs_pair [of i j]) auto
  then have "collisionMessage (outputFilename (deps ! j)) \<in> set (sourceProviderErrors deps)"
    using assms(2) by (simp add: sourceProviderErrors_def)
  then show ?thesis
    by (auto simp: collisionMessage_def outputFilename_def)
qed

theorem sourceProvider_collision_witness:
  "sourceProviderDeps
     [\<lparr>bg_name = ''libbindings1'', bg_stem = ''bindings'', bg_wrapper_src = ''src/any.h''\<rparr>,
      \<lparr>bg_name = ''libbindings2'', bg_stem = ''bindings'', bg_wrapper_src = ''src/any.h''\<rparr>]
     [''foo.rs'', '':libbindings1'', '':libbindings2'']
   = [\<lparr>bg_name = ''libbindings1'', bg_stem = ''bindings'', bg_wrapper_src = ''src/any.h''\<rparr>,
      \<lparr>bg_name = ''libbindings2'', bg_stem = ''bindings'', bg_wrapper_src = ''src/any.h''\<rparr>]
   \<and> sourceProviderErrors
     [\<lparr>bg_name = ''libbindings1'', bg_stem = ''bindings'', bg_wrapper_src = ''src/any.h''\<rparr>,
      \<lparr>bg_name = ''libbindings2'', bg_stem = ''bindings'', bg_wrapper_src = ''src/any.h''\<rparr>]
   = [''multiple source providers generate the same filename output: bindings.rs'']
   \<and> buildFails
     [\<lparr>bg_name = ''libbindings1'', bg_stem = ''bindings'', bg_wrapper_src = ''src/any.h''\<rparr>,
      \<lparr>bg_name = ''libbindings2'', bg_stem = ''bindings'', bg_wrapper_src = ''src/any.h''\<rparr>]
     [''foo.rs'', '':libbindings1'', '':libbindings2'']"
  using sourceProvider_collision
    [of 0 1 "[\<lparr>bg_name = ''libbindings1'', bg_stem = ''bindings'', bg_wrapper_src = ''src/any.h''\<rparr>,
      \<lparr>bg_name = ''libbindings2'', bg_stem = ''bindings'', bg_wrapper_src = ''src/any.h''\<rparr>]"]
  by (simp add: sourceProviderDeps_def sourceProviderErrors_def buildFails_def
        outputFilename_def collisionMessage_def)

section \<open>Properties of the mutator pipeline\<close>

subsection \<open>The order of a pass\<close>





text \<open>
  The cycle scenario of the specification: the modules A, B and C, each depending on the
  next and C on A, abort the pipeline with the three names.
\<close>

lemma cycle_scenario:
  "RunPipeline k (registerFakeApexMutator [])
     [(\<lparr>Name = ''A'', Kind = OtherModule, ApexAvailable = []\<rparr>, [(''B'', ''libs'')]),
      (\<lparr>Name = ''B'', Kind = OtherModule, ApexAvailable = []\<rparr>, [(''C'', ''libs'')]),
      (\<lparr>Name = ''C'', Kind = OtherModule, ApexAvailable = []\<rparr>, [(''A'', ''libs'')])]
   = Some (Inl (CycleError [''A'', ''B'', ''C'']))"
  by (simp add: RunPipeline_def BuildGraph_def emptyGraph_def AddModule_def AddDependency_def
        candidates_def registerFakeApexMutator_def RegisterMutator_def runMutatorPass_def
        passOrder_def AllModules_def ready_def directDeps_def cycleMembers_def handleNames_def
        moduleAt_def upt_rec)

subsection \<open>The visits of a pass\<close>





text \<open>
  The fake APEX mutator splits a variant that it has created as it splits the module:
  the variant carries the module's \<open>ApexAvailable\<close>. A pass of this mutator that visits
  the variants created during the pass therefore never ends once it has reached a
  \<open>Library\<close> or \<open>SdkLibrary\<close> with a non-empty \<open>ApexAvailable\<close>, whatever the fuel.
\<close>

lemma fakeApexMutator_graph:
  assumes node: "moduleAt (mc_graph mctx) (mc_module mctx) = Some node"
    and kind: "Kind (mv_module node) = Library \<or> Kind (mv_module node) = SdkLibrary"
    and avail: "ApexAvailable (mv_module node) \<noteq> []" and unsplit: "\<not> mv_split node"
  shows "fakeApexMutator mctx =
           Inr (mctx\<lparr>mc_graph := (mc_graph mctx)\<lparr>g_nodes :=
                  (g_nodes (mc_graph mctx))[mc_module mctx := node\<lparr>mv_split := True\<rparr>] @
                  [\<lparr>mv_module = mv_module node,
                    mv_variations = mv_variations node @ [(mc_mutator mctx, '''')],
                    mv_split = False, mv_providers = Map.empty\<rparr>,
                   \<lparr>mv_module = mv_module node,
                    mv_variations = mv_variations node @ [(mc_mutator mctx, ''apex1000'')],
                    mv_split = False,
                    mv_providers = [ApexInfoProvider \<mapsto>
                       \<lparr>ApexVariationName = ''apex1000'', InApexVariants = []\<rparr>]\<rparr>]\<rparr>\<rparr>)"
proof -
  let ?g = "mc_graph mctx" and ?n = "length (g_nodes (mc_graph mctx))"
  let ?info = "\<lparr>ApexVariationName = ''apex1000'', InApexVariants = []\<rparr>"
  let ?v0 = "\<lparr>mv_module = mv_module node,
              mv_variations = mv_variations node @ [(mc_mutator mctx, '''')],
              mv_split = False, mv_providers = (Map.empty :: ProviderId \<rightharpoonup> ApexInfo)\<rparr>"
  let ?v1 = "\<lparr>mv_module = mv_module node,
              mv_variations = mv_variations node @ [(mc_mutator mctx, ''apex1000'')],
              mv_split = False, mv_providers = (Map.empty :: ProviderId \<rightharpoonup> ApexInfo)\<rparr>"
  let ?g1 = "?g\<lparr>g_nodes := (g_nodes ?g)[mc_module mctx := node\<lparr>mv_split := True\<rparr>] @ [?v0, ?v1]\<rparr>"
  have cv: "CreateVariations ?g (mc_module mctx) (mc_mutator mctx) ['''', ''apex1000'']
              = Inr (?g1, [?n, Suc ?n])"
    using CreateVariations_ok [OF node unsplit, of "['''', ''apex1000'']" "mc_mutator mctx"]
    by (simp add: upt_rec)
  have n1: "moduleAt ?g1 (Suc ?n) = Some ?v1"
    by (simp add: moduleAt_def nth_append)
  have sp: "SetProvider ?g1 (Suc ?n) ApexInfoProvider ?info =
              Inr (?g1\<lparr>g_nodes := (g_nodes ?g1)[Suc ?n :=
                     ?v1\<lparr>mv_providers := (mv_providers ?v1)(ApexInfoProvider \<mapsto> ?info)\<rparr>]\<rparr>)"
    by (rule SetProvider_unset [OF n1]) simp
  have "fakeApexMutator mctx =
          Inr (mctx\<lparr>mc_graph := ?g1\<lparr>g_nodes := (g_nodes ?g1)[Suc ?n :=
                     ?v1\<lparr>mv_providers := (mv_providers ?v1)(ApexInfoProvider \<mapsto> ?info)\<rparr>]\<rparr>\<rparr>)"
    using node kind avail cv sp
    by (auto simp: fakeApexMutator_def mctxModule_def mctxCreateVariations_def
          mctxSetVariationProvider_def Let_def split: ModuleKind.splits)
  then show ?thesis
    by (simp add: list_update_append)
qed

lemma runPass_fakeApexMutator_no_end:
  assumes "pending \<noteq> []" and "distinct pending"
    and "\<forall>h\<in>set pending. \<exists>node. moduleAt g h = Some node \<and> \<not> mv_split node
           \<and> (Kind (mv_module node) = Library \<or> Kind (mv_module node) = SdkLibrary)
           \<and> ApexAvailable (mv_module node) \<noteq> []"
  shows "runPass k name fakeApexMutator g pending visited = None"
  using assms
proof (induction k arbitrary: g pending visited)
  case 0
  then show ?case by simp
next
  case (Suc k)
  obtain h rest where pending: "pending = h # rest"
    using Suc.prems(1) by (cases pending) auto
  obtain node where node: "moduleAt g h = Some node" and unsplit: "\<not> mv_split node"
    and kind: "Kind (mv_module node) = Library \<or> Kind (mv_module node) = SdkLibrary"
    and avail: "ApexAvailable (mv_module node) \<noteq> []"
    using Suc.prems(3) pending by auto
  let ?n = "length (g_nodes g)"
  let ?v0 = "\<lparr>mv_module = mv_module node,
              mv_variations = mv_variations node @ [(name, '''')],
              mv_split = False, mv_providers = (Map.empty :: ProviderId \<rightharpoonup> ApexInfo)\<rparr>"
  let ?v1 = "\<lparr>mv_module = mv_module node,
              mv_variations = mv_variations node @ [(name, ''apex1000'')],
              mv_split = False,
              mv_providers = [ApexInfoProvider \<mapsto>
                 \<lparr>ApexVariationName = ''apex1000'', InApexVariants = []\<rparr>]\<rparr>"
  let ?g2 = "g\<lparr>g_nodes := (g_nodes g)[h := node\<lparr>mv_split := True\<rparr>] @ [?v0, ?v1]\<rparr>"
  let ?ctx = "\<lparr>mc_graph = g, mc_module = h, mc_mutator = name\<rparr>"
  have fam: "fakeApexMutator ?ctx = Inr (?ctx\<lparr>mc_graph := ?g2\<rparr>)"
    using fakeApexMutator_graph [of ?ctx node] node kind avail unsplit by simp
  have step: "runPass (Suc k) name fakeApexMutator g pending visited =
                runPass k name fakeApexMutator ?g2 (rest @ [?n, Suc ?n]) (visited @ [h])"
    by (simp add: pending fam upt_rec)
  have lt: "h' < ?n" if "h' \<in> set pending" for h'
    using Suc.prems(3) that by (auto simp: moduleAt_Some)
  have rest_nodes: "moduleAt ?g2 h' = moduleAt g h'" if "h' \<in> set rest" for h'
  proof -
    have "h' \<noteq> h" using Suc.prems(2) pending that by auto
    moreover have "h' < ?n" using lt [of h'] pending that by simp
    ultimately show ?thesis by (simp add: moduleAt_def nth_append)
  qed
  have new0: "moduleAt ?g2 ?n = Some ?v0" by (simp add: moduleAt_def nth_append)
  have new1: "moduleAt ?g2 (Suc ?n) = Some ?v1" by (simp add: moduleAt_def nth_append)
  have p1: "rest @ [?n, Suc ?n] \<noteq> []" by simp
  have p2: "distinct (rest @ [?n, Suc ?n])"
    using Suc.prems(2) pending lt by fastforce
  have p3: "\<forall>h'\<in>set (rest @ [?n, Suc ?n]). \<exists>node'. moduleAt ?g2 h' = Some node'
              \<and> \<not> mv_split node'
              \<and> (Kind (mv_module node') = Library \<or> Kind (mv_module node') = SdkLibrary)
              \<and> ApexAvailable (mv_module node') \<noteq> []"
  proof
    fix h' assume "h' \<in> set (rest @ [?n, Suc ?n])"
    then consider "h' \<in> set rest" | "h' = ?n" | "h' = Suc ?n" by auto
    then show "\<exists>node'. moduleAt ?g2 h' = Some node' \<and> \<not> mv_split node'
              \<and> (Kind (mv_module node') = Library \<or> Kind (mv_module node') = SdkLibrary)
              \<and> ApexAvailable (mv_module node') \<noteq> []"
    proof cases
      case 1
      then show ?thesis using rest_nodes [OF 1] Suc.prems(3) pending by simp
    next
      case 2
      then show ?thesis using new0 kind avail by simp
    next
      case 3
      then show ?thesis using new1 kind avail by simp
    qed
  qed
  show ?case
    using Suc.IH [OF p1 p2 p3] step by simp
qed

lemma fake_apex_pass_no_end:
  "RunAll k (registerFakeApexMutator [])
     \<lparr>g_nodes = [\<lparr>mv_module = \<lparr>Name = ''foo'', Kind = Library, ApexAvailable = [''myapex'']\<rparr>,
                  mv_variations = [], mv_split = False, mv_providers = Map.empty\<rparr>],
      g_edges = []\<rparr> = None"
proof -
  let ?g = "\<lparr>g_nodes = [\<lparr>mv_module = \<lparr>Name = ''foo'', Kind = Library, ApexAvailable = [''myapex'']\<rparr>,
                  mv_variations = [], mv_split = False,
                  mv_providers = (Map.empty :: ProviderId \<rightharpoonup> ApexInfo)\<rparr>],
      g_edges = []\<rparr>"
  have order: "passOrder BottomUp ?g = Inr [0]"
    by (simp add: passOrder_def AllModules_def ready_def directDeps_def)
  have "runPass k ''apex'' fakeApexMutator ?g [0] [] = None"
    by (rule runPass_fakeApexMutator_no_end) (simp_all add: moduleAt_def)
  then show ?thesis
    using order
    by (simp add: registerFakeApexMutator_def RegisterMutator_def runMutatorPass_def)
qed

subsection \<open>Determinism of the pipeline\<close>







end
